theory Spec2Isabelle
  imports Main
begin

section \<open>Python strings\<close>

text \<open>
  The analysers of \<^verbatim>\<open>C_SDE.py\<close> work on \<^verbatim>\<open>code.splitlines()\<close>, a list of lines, and
  on Python's \<^verbatim>\<open>str\<close> methods and \<^verbatim>\<open>re\<close> patterns. The source text is taken to be
  ASCII: a line is a \<^typ>\<open>string\<close>, one \<^typ>\<open>char\<close> per code point, and a character
  outside ASCII counts as neither white space nor a word character.
\<close>

definition is_space :: "char \<Rightarrow> bool" where
  \<comment> \<open>\<^verbatim>\<open>str.isspace\<close> and the pattern \<^verbatim>\<open>\s\<close> on ASCII: 9..13, 28..31 and 32.\<close>
  "is_space c = (let n = (of_char c :: nat) in (9 \<le> n \<and> n \<le> 13) \<or> (28 \<le> n \<and> n \<le> 32))"

definition is_digit :: "char \<Rightarrow> bool" where
  \<comment> \<open>\<^verbatim>\<open>\d\<close> and \<^verbatim>\<open>str.isdigit\<close> on ASCII.\<close>
  "is_digit c = (let n = (of_char c :: nat) in 48 \<le> n \<and> n \<le> 57)"

definition is_ident_start :: "char \<Rightarrow> bool" where
  \<comment> \<open>The class \<^verbatim>\<open>[a-zA-Z_]\<close>.\<close>
  "is_ident_start c =
     (let n = (of_char c :: nat) in (97 \<le> n \<and> n \<le> 122) \<or> (65 \<le> n \<and> n \<le> 90) \<or> n = 95)"

definition is_word :: "char \<Rightarrow> bool" where
  \<comment> \<open>The class \<^verbatim>\<open>[a-zA-Z0-9_]\<close>, which is \<^verbatim>\<open>\w\<close> on ASCII.\<close>
  "is_word c = (is_ident_start c \<or> is_digit c)"

definition strip :: "string \<Rightarrow> string" where
  \<comment> \<open>\<^verbatim>\<open>s.strip()\<close>\<close>
  "strip s = rev (dropWhile is_space (rev (dropWhile is_space s)))"

definition startswith :: "string \<Rightarrow> string \<Rightarrow> bool" where
  \<comment> \<open>\<^verbatim>\<open>s.startswith(p)\<close>\<close>
  "startswith s p = (take (length p) s = p)"

fun find_from :: "string \<Rightarrow> string \<Rightarrow> nat \<Rightarrow> nat option" where
  "find_from sub [] n = (if sub = [] then Some n else None)"
| "find_from sub (c # cs) n =
     (if startswith (c # cs) sub then Some n else find_from sub cs (Suc n))"

definition str_find :: "string \<Rightarrow> string \<Rightarrow> nat option" where
  \<comment> \<open>\<^verbatim>\<open>s.find(sub)\<close>, with \<^verbatim>\<open>-1\<close> as \<open>None\<close>\<close>
  "str_find s sub = find_from sub s 0"

definition contains :: "string \<Rightarrow> string \<Rightarrow> bool" where
  \<comment> \<open>\<^verbatim>\<open>sub in s\<close>\<close>
  "contains s sub = (str_find s sub \<noteq> None)"

fun rfind_from :: "char \<Rightarrow> string \<Rightarrow> nat \<Rightarrow> nat option \<Rightarrow> nat option" where
  "rfind_from x [] n acc = acc"
| "rfind_from x (c # cs) n acc = rfind_from x cs (Suc n) (if c = x then Some n else acc)"

definition rfind :: "string \<Rightarrow> char \<Rightarrow> nat option" where
  \<comment> \<open>\<^verbatim>\<open>s.rfind(c)\<close> for a one-character \<^verbatim>\<open>c\<close>\<close>
  "rfind s x = rfind_from x s 0 None"

definition slice :: "string \<Rightarrow> nat \<Rightarrow> nat \<Rightarrow> string" where
  \<comment> \<open>\<^verbatim>\<open>s[a:b]\<close> for non-negative \<^verbatim>\<open>a\<close>, \<^verbatim>\<open>b\<close>: empty when \<^verbatim>\<open>b <= a\<close>\<close>
  "slice s a b = take (b - a) (drop a s)"

definition after_sub :: "string \<Rightarrow> string \<Rightarrow> string" where
  \<comment> \<open>\<^verbatim>\<open>s.split(sub, 1)[1] if sub in s else ""\<close>\<close>
  "after_sub sub s = (case str_find s sub of None \<Rightarrow> [] | Some i \<Rightarrow> drop (i + length sub) s)"

fun split_on :: "char \<Rightarrow> string \<Rightarrow> string list" where
  \<comment> \<open>\<^verbatim>\<open>s.split(c)\<close> for a one-character separator\<close>
  "split_on x [] = [[]]"
| "split_on x (c # cs) =
     (if c = x then [] # split_on x cs
      else (case split_on x cs of [] \<Rightarrow> [[c]] | p # ps \<Rightarrow> (c # p) # ps))"

definition digit_char :: "nat \<Rightarrow> char" where
  "digit_char d = char_of (48 + d)"

fun str_nat :: "nat \<Rightarrow> string" where
  \<comment> \<open>\<^verbatim>\<open>str(n)\<close>, the decimal numeral of a non-negative integer\<close>
  "str_nat n = (if n < 10 then [digit_char n] else str_nat (n div 10) @ [digit_char (n mod 10)])"

declare str_nat.simps [simp del]

section \<open>Python regular expressions\<close>

text \<open>
  The patterns of the source are built from literals, character classes, sequence,
  alternation, the greedy repetitions \<^verbatim>\<open>*\<close> and \<^verbatim>\<open>+\<close> of one character class, the
  greedy option \<^verbatim>\<open>?\<close>, capturing groups and \<^verbatim>\<open>\b\<close>. \<open>rmatch\<close> lists every way a pattern
  matches at a position, in the order in which the backtracking matcher of \<^verbatim>\<open>re\<close> tries
  them; its head is the match \<^verbatim>\<open>re\<close> reports. A position is the text before it,
  reversed, the text after it, and the groups captured so far.
\<close>

datatype regex =
    Atom "char \<Rightarrow> bool"
  | Lit string
  | Seq regex regex
  | Alt regex regex
  | Many "char \<Rightarrow> bool"
  | Opt regex
  | Group nat regex
  | WordB

type_synonym mpos = "string \<times> string \<times> (nat \<times> string) list"

definition at_word_boundary :: "string \<Rightarrow> string \<Rightarrow> bool" where
  "at_word_boundary pre rest =
     ((case pre of [] \<Rightarrow> False | c # _ \<Rightarrow> is_word c) \<noteq> (case rest of [] \<Rightarrow> False | c # _ \<Rightarrow> is_word c))"

fun rmatch :: "regex \<Rightarrow> mpos \<Rightarrow> mpos list" where
  "rmatch (Atom p) (pre, rest, caps) =
     (case rest of [] \<Rightarrow> [] | c # cs \<Rightarrow> if p c then [(c # pre, cs, caps)] else [])"
| "rmatch (Lit l) (pre, rest, caps) =
     (if startswith rest l then [(rev l @ pre, drop (length l) rest, caps)] else [])"
| "rmatch (Seq a b) st = concat (map (rmatch b) (rmatch a st))"
| "rmatch (Alt a b) st = rmatch a st @ rmatch b st"
| "rmatch (Many p) (pre, rest, caps) =
     map (\<lambda>k. (rev (take k rest) @ pre, drop k rest, caps))
         (rev [0 ..< Suc (length (takeWhile p rest))])"
| "rmatch (Opt a) st = rmatch a st @ [st]"
| "rmatch (Group n a) (pre, rest, caps) =
     map (\<lambda>(pre', rest', caps'). (pre', rest', (n, rev (take (length pre' - length pre) pre')) # caps'))
         (rmatch a (pre, rest, caps))"
| "rmatch WordB (pre, rest, caps) = (if at_word_boundary pre rest then [(pre, rest, caps)] else [])"

record rmatch_obj =
  m_start :: nat
  m_end :: nat
  m_groups :: "(nat \<times> string) list"

definition mk_match :: "string \<Rightarrow> mpos \<Rightarrow> rmatch_obj" where
  "mk_match pre m =
     (case m of (pre', rest', caps') \<Rightarrow> \<lparr>m_start = length pre, m_end = length pre', m_groups = caps'\<rparr>)"

definition group :: "rmatch_obj \<Rightarrow> nat \<Rightarrow> string" where
  \<comment> \<open>\<^verbatim>\<open>m.group(k)\<close>; every group the source reads takes part in its match\<close>
  "group m k = (case map_of (m_groups m) k of Some g \<Rightarrow> g | None \<Rightarrow> [])"

fun search_from :: "regex \<Rightarrow> string \<Rightarrow> string \<Rightarrow> rmatch_obj option" where
  "search_from r pre [] =
     (case rmatch r (pre, [], []) of [] \<Rightarrow> None | m # _ \<Rightarrow> Some (mk_match pre m))"
| "search_from r pre (c # cs) =
     (case rmatch r (pre, c # cs, []) of
        [] \<Rightarrow> search_from r (c # pre) cs
      | m # _ \<Rightarrow> Some (mk_match pre m))"

definition re_search :: "regex \<Rightarrow> string \<Rightarrow> rmatch_obj option" where
  \<comment> \<open>\<^verbatim>\<open>re.search(r, s)\<close>: the leftmost match\<close>
  "re_search r s = search_from r [] s"

definition re_test :: "regex \<Rightarrow> string \<Rightarrow> bool" where
  \<comment> \<open>\<^verbatim>\<open>re.search(r, s)\<close> used as a condition\<close>
  "re_test r s = (re_search r s \<noteq> None)"

text \<open>
  \<^verbatim>\<open>re.finditer\<close> and \<^verbatim>\<open>re.sub\<close> scan from left to right and resume at the end of each
  match; \<open>skip\<close> counts the characters of the last match still to be passed. Every
  pattern the source scans with matches at least one character.
\<close>

fun finditer_from :: "regex \<Rightarrow> string \<Rightarrow> string \<Rightarrow> nat \<Rightarrow> rmatch_obj list" where
  "finditer_from r pre [] skip =
     (if skip = 0 then (case rmatch r (pre, [], []) of [] \<Rightarrow> [] | m # _ \<Rightarrow> [mk_match pre m]) else [])"
| "finditer_from r pre (c # cs) skip =
     (if 0 < skip then finditer_from r (c # pre) cs (skip - 1)
      else (case rmatch r (pre, c # cs, []) of
              [] \<Rightarrow> finditer_from r (c # pre) cs 0
            | m # _ \<Rightarrow> mk_match pre m #
                finditer_from r (c # pre) cs (m_end (mk_match pre m) - length pre - 1)))"

definition finditer :: "regex \<Rightarrow> string \<Rightarrow> rmatch_obj list" where
  "finditer r s = finditer_from r [] s 0"

definition findall1 :: "regex \<Rightarrow> string \<Rightarrow> string list" where
  \<comment> \<open>\<^verbatim>\<open>re.findall\<close> for a pattern with one group: the texts of group 1\<close>
  "findall1 r s = map (\<lambda>m. group m 1) (finditer r s)"

fun sub_from :: "regex \<Rightarrow> (rmatch_obj \<Rightarrow> string) \<Rightarrow> string \<Rightarrow> string \<Rightarrow> nat \<Rightarrow> string" where
  "sub_from r repl pre [] skip =
     (if skip = 0 then (case rmatch r (pre, [], []) of [] \<Rightarrow> [] | m # _ \<Rightarrow> repl (mk_match pre m)) else [])"
| "sub_from r repl pre (c # cs) skip =
     (if 0 < skip then sub_from r repl (c # pre) cs (skip - 1)
      else (case rmatch r (pre, c # cs, []) of
              [] \<Rightarrow> c # sub_from r repl (c # pre) cs 0
            | m # _ \<Rightarrow>
                (if m_end (mk_match pre m) = length pre
                 then repl (mk_match pre m) @ c # sub_from r repl (c # pre) cs 0
                 else repl (mk_match pre m) @
                      sub_from r repl (c # pre) cs (m_end (mk_match pre m) - length pre - 1))))"

definition re_sub :: "regex \<Rightarrow> (rmatch_obj \<Rightarrow> string) \<Rightarrow> string \<Rightarrow> string" where
  \<comment> \<open>\<^verbatim>\<open>re.sub(r, repl, s)\<close>\<close>
  "re_sub r repl s = sub_from r repl [] s 0"


fun seqs :: "regex list \<Rightarrow> regex" where
  "seqs [] = Lit []"
| "seqs [r] = r"
| "seqs (r # rs) = Seq r (seqs rs)"

fun alts :: "string list \<Rightarrow> regex" where
  "alts [] = Atom (\<lambda>c. False)"
| "alts [l] = Lit l"
| "alts (l # ls) = Alt (Lit l) (alts ls)"

definition re_ws :: regex where
  \<comment> \<open>\<^verbatim>\<open>\s*\<close>\<close>
  "re_ws = Many is_space"

definition re_ws1 :: regex where
  \<comment> \<open>\<^verbatim>\<open>\s+\<close>\<close>
  "re_ws1 = Seq (Atom is_space) (Many is_space)"

definition ident :: regex where
  \<comment> \<open>\<^verbatim>\<open>[a-zA-Z_][a-zA-Z0-9_]*\<close>\<close>
  "ident = Seq (Atom is_ident_start) (Many is_word)"

definition type_kw :: regex where
  \<comment> \<open>\<^verbatim>\<open>int|char|double|float|long|short|void\<close>\<close>
  "type_kw = alts [''int'', ''char'', ''double'', ''float'', ''long'', ''short'', ''void'']"

section \<open>The dataflow analyzer\<close>

subsection \<open>Patterns of \<^verbatim>\<open>DataflowAnalyzer\<close>\<close>

definition re_function_def :: regex where
  \<comment> \<open>\<^verbatim>\<open>\b(int|char|double|float|long|short|void)\s+[a-zA-Z_][a-zA-Z0-9_]*\s*\([^)]*\)\s*{\<close>\<close>
  "re_function_def =
     seqs [WordB, Group 1 type_kw, re_ws1, ident, re_ws, Lit ''('', Many (\<lambda>c. c \<noteq> CHR '')''),
           Lit '')'', re_ws, Lit ''{'']"

definition re_deref_assign :: regex where
  \<comment> \<open>\<^verbatim>\<open>\*\s*([a-zA-Z_][a-zA-Z0-9_]*)\s*=\<close>\<close>
  "re_deref_assign = seqs [Lit ''*'', re_ws, Group 1 ident, re_ws, Lit ''='']"

definition re_eqeq :: regex where
  \<comment> \<open>\<^verbatim>\<open>==\<close>\<close>
  "re_eqeq = Lit ''==''"

definition re_ptr_type :: regex where
  \<comment> \<open>\<^verbatim>\<open>\b(int|char|double|float|long|short|void)\s*\*\<close>\<close>
  "re_ptr_type = seqs [WordB, Group 1 type_kw, re_ws, Lit ''*'']"

definition re_decl_assign :: regex where
  \<comment> \<open>\<^verbatim>\<open>\b(int|char|double|float|long|short|void)\s*\*?\s*([a-zA-Z_][a-zA-Z0-9_]*)\s*=\<close>\<close>
  "re_decl_assign =
     seqs [WordB, Group 1 type_kw, re_ws, Opt (Lit ''*''), re_ws, Group 2 ident, re_ws, Lit ''='']"

definition re_decl :: regex where
  \<comment> \<open>\<^verbatim>\<open>\b(int|char|double|float|long|short|void)\s*\*?\s+([a-zA-Z_][a-zA-Z0-9_]*)\s*(?:,|;)\<close>\<close>
  "re_decl =
     seqs [WordB, Group 1 type_kw, re_ws, Opt (Lit ''*''), re_ws1, Group 2 ident, re_ws,
           Alt (Lit '','') (Lit '';'')]"

definition re_type_star :: regex where
  \<comment> \<open>\<^verbatim>\<open>\b(int|char|double|float|long|short|void)\s*(\*?)\<close>\<close>
  "re_type_star = seqs [WordB, Group 1 type_kw, re_ws, Group 2 (Opt (Lit ''*''))]"

definition re_name_sep :: regex where
  \<comment> \<open>\<^verbatim>\<open>([a-zA-Z_][a-zA-Z0-9_]*)\s*(?:[,;])\<close>\<close>
  "re_name_sep = seqs [Group 1 ident, re_ws, Atom (\<lambda>c. c = CHR '','' \<or> c = CHR '';'')]"

definition re_assign :: regex where
  \<comment> \<open>\<^verbatim>\<open>\b([a-zA-Z_][a-zA-Z0-9_]*)\s*=\<close>\<close>
  "re_assign = seqs [WordB, Group 1 ident, re_ws, Lit ''='']"

definition re_star :: regex where
  \<comment> \<open>\<^verbatim>\<open>\*\<close>\<close>
  "re_star = Lit ''*''"

definition re_control :: regex where
  \<comment> \<open>\<^verbatim>\<open>\b(if|while|for)\s*\(\<close>\<close>
  "re_control = seqs [WordB, Group 1 (alts [''if'', ''while'', ''for'']), re_ws, Lit ''('']"

definition re_call :: regex where
  \<comment> \<open>\<^verbatim>\<open>([a-zA-Z_][a-zA-Z0-9_]*)\s*\(\<close>\<close>
  "re_call = seqs [Group 1 ident, re_ws, Lit ''('']"

definition re_assign_target :: regex where
  \<comment> \<open>\<^verbatim>\<open>([a-zA-Z_][a-zA-Z0-9_]*)\s*=\<close>\<close>
  "re_assign_target = seqs [Group 1 ident, re_ws, Lit ''='']"

definition re_deref :: regex where
  \<comment> \<open>\<^verbatim>\<open>\*\s*([a-zA-Z_][a-zA-Z0-9_]*)\<close>\<close>
  "re_deref = seqs [Lit ''*'', re_ws, Group 1 ident]"

definition re_call_args :: regex where
  \<comment> \<open>\<^verbatim>\<open>\b[a-zA-Z_][a-zA-Z0-9_]*\s*\(([^)]*)\)\<close>\<close>
  "re_call_args =
     seqs [WordB, ident, re_ws, Lit ''('', Group 1 (Many (\<lambda>c. c \<noteq> CHR '')'')), Lit '')'']"

definition re_word :: regex where
  \<comment> \<open>\<^verbatim>\<open>\b([a-zA-Z_][a-zA-Z0-9_]*)\b\<close>\<close>
  "re_word = seqs [WordB, Group 1 ident, WordB]"

definition re_array :: regex where
  \<comment> \<open>\<^verbatim>\<open>([a-zA-Z_][a-zA-Z0-9_]*)\s*\[([^\]]+)\]\<close>\<close>
  "re_array =
     seqs [Group 1 ident, re_ws, Lit ''['',
           Group 2 (Seq (Atom (\<lambda>c. c \<noteq> CHR '']'')) (Many (\<lambda>c. c \<noteq> CHR '']''))), Lit '']'']"

definition re_dq_string :: regex where
  \<comment> \<open>a double quote, \<^verbatim>\<open>[^"]*\<close>, a double quote\<close>
  "re_dq_string = seqs [Atom (\<lambda>c. c = CHR 0x22), Many (\<lambda>c. c \<noteq> CHR 0x22), Atom (\<lambda>c. c = CHR 0x22)]"

definition re_sq_string :: regex where
  \<comment> \<open>a single quote, \<^verbatim>\<open>[^']*\<close>, a single quote\<close>
  "re_sq_string = seqs [Atom (\<lambda>c. c = CHR 0x27), Many (\<lambda>c. c \<noteq> CHR 0x27), Atom (\<lambda>c. c = CHR 0x27)]"

definition re_number :: regex where
  \<comment> \<open>\<^verbatim>\<open>\b\d+\b\<close>\<close>
  "re_number = seqs [WordB, Atom is_digit, Many is_digit, WordB]"

definition re_field :: regex where
  \<comment> \<open>\<^verbatim>\<open>\b([a-zA-Z_][a-zA-Z0-9_]*)\.[a-zA-Z_][a-zA-Z0-9_]*\<close>\<close>
  "re_field = seqs [WordB, Group 1 ident, Lit ''.'', ident]"

definition re_free :: regex where
  \<comment> \<open>\<^verbatim>\<open>free\s*\(\s*([a-zA-Z_][a-zA-Z0-9_]*)\s*\)\<close>\<close>
  "re_free = seqs [Lit ''free'', re_ws, Lit ''('', re_ws, Group 1 ident, re_ws, Lit '')'']"

subsection \<open>Dictionaries\<close>

text \<open>
  A Python \<^verbatim>\<open>dict\<close> keeps its keys in insertion order: an association list with one
  pair per key. \<^verbatim>\<open>list(set(xs))\<close> holds the distinct elements of \<^verbatim>\<open>xs\<close> in an order
  that Python leaves open; the model takes the order of \<^const>\<open>remdups\<close>.
\<close>

fun dict_set :: "('k \<times> 'v) list \<Rightarrow> 'k \<Rightarrow> 'v \<Rightarrow> ('k \<times> 'v) list" where
  \<comment> \<open>\<^verbatim>\<open>d[k] = v\<close>\<close>
  "dict_set [] k v = [(k, v)]"
| "dict_set ((k', v') # d) k v = (if k' = k then (k, v) # d else (k', v') # dict_set d k v)"

definition py_set_list :: "'a list \<Rightarrow> 'a list" where
  \<comment> \<open>\<^verbatim>\<open>list(set(xs))\<close>\<close>
  "py_set_list xs = remdups xs"

subsection \<open>Expression variable extraction\<close>

definition c_keywords :: "string list" where
  "c_keywords =
     [''int'', ''char'', ''double'', ''float'', ''long'', ''short'', ''void'', ''signed'', ''unsigned'',
      ''if'', ''else'', ''while'', ''for'', ''do'', ''switch'', ''case'', ''default'', ''break'', ''continue'',
      ''return'', ''sizeof'', ''typedef'', ''struct'', ''union'', ''enum'', ''static'', ''extern'', ''const'',
      ''volatile'', ''register'', ''auto'', ''inline'', ''restrict'', ''NULL'']"

definition arg_excluded :: "string list" where
  "arg_excluded = [''int'', ''char'', ''double'', ''float'', ''NULL'', ''sizeof'']"

definition isdigit :: "string \<Rightarrow> bool" where
  \<comment> \<open>\<^verbatim>\<open>s.isdigit()\<close>\<close>
  "isdigit s = (s \<noteq> [] \<and> list_all is_digit s)"

definition deref_pair :: "rmatch_obj \<Rightarrow> string list" where
  \<comment> \<open>the pointer and the dereferenced pseudo-variable \<^verbatim>\<open>*ptr\<close>\<close>
  "deref_pair m = [group m 1, ''*'' @ group m 1]"

definition deref_vars :: "string \<Rightarrow> string list" where
  "deref_vars e = concat (map deref_pair (finditer re_deref e))"

definition arg_vars :: "string \<Rightarrow> string list" where
  "arg_vars arg0 =
     (let arg = strip arg0 in
      if arg \<noteq> [] \<and> \<not> isdigit arg
      then (if contains arg ''*''
            then (case re_search re_deref arg of Some m \<Rightarrow> deref_pair m | None \<Rightarrow> [])
            else [])
           @ filter (\<lambda>v. v \<notin> set arg_excluded) (findall1 re_word arg)
      else [])"

definition call_vars :: "string \<Rightarrow> string list" where
  "call_vars e =
     concat (map (\<lambda>m. let args = strip (group m 1) in
                       if args \<noteq> [] then concat (map arg_vars (split_on CHR '','' args)) else [])
                 (finditer re_call_args e))"

definition array_vars :: "string \<Rightarrow> string list" where
  "array_vars e =
     concat (map (\<lambda>m. group m 1 #
                       filter (\<lambda>v. v \<notin> set c_keywords \<and> 0 < length v) (findall1 re_word (group m 2)))
                 (finditer re_array e))"

definition cleaned :: "string \<Rightarrow> string" where
  \<comment> \<open>the chain of \<^verbatim>\<open>re.sub\<close> calls; the patterns of the calls, dereferences and array
      accesses are the ones above, whose groups a constant replacement ignores\<close>
  "cleaned e =
     re_sub re_field (\<lambda>m. group m 1 @ '' '')
       (re_sub re_array (\<lambda>m. [])
         (re_sub re_deref (\<lambda>m. [])
           (re_sub re_call_args (\<lambda>m. [])
             (re_sub re_number (\<lambda>m. [])
               (re_sub re_sq_string (\<lambda>m. [])
                 (re_sub re_dq_string (\<lambda>m. []) e))))))"

definition residual_vars :: "string \<Rightarrow> string list" where
  "residual_vars e =
     filter (\<lambda>v. v \<notin> set c_keywords \<and> 0 < length v) (findall1 re_word (cleaned e))"

definition extract_variables_from_expression :: "string \<Rightarrow> string list" where
  "extract_variables_from_expression expression =
     (if expression = [] then []
      else (let e = (case str_find expression ''//'' of None \<Rightarrow> expression | Some i \<Rightarrow> take i expression)
            in py_set_list (deref_vars e @ call_vars e @ array_vars e @ residual_vars e)))"

subsection \<open>Statement classification\<close>

text \<open>
  \<open>classify_line\<close> is the \<^verbatim>\<open>if\<close>/\<^verbatim>\<open>elif\<close> chain of \<^verbatim>\<open>analyze_variables\<close> for one line:
  the \<^verbatim>\<open>reads\<close> and \<^verbatim>\<open>writes\<close> lists, the \<^verbatim>\<open>operation\<close> label, and the calls of
  \<^verbatim>\<open>add_variable_definition\<close> it makes, in order, as pairs of a name and the details.
\<close>

record classified =
  c_reads :: "string list"
  c_writes :: "string list"
  c_operation :: string
  c_defs :: "(string \<times> string) list"

fun declare_names ::
  "string \<Rightarrow> string list \<Rightarrow> string list \<times> string \<times> (string \<times> string) list
     \<Rightarrow> string list \<times> string \<times> (string \<times> string) list" where
  "declare_names ptr_str [] acc = acc"
| "declare_names ptr_str (v # vs) (writes, operation, defs) =
     (if v \<in> set writes then declare_names ptr_str vs (writes, operation, defs)
      else (let opn = ''Declaration of '' @ v @ ptr_str
            in declare_names ptr_str vs (writes @ [v], opn, defs @ [(v, opn)])))"

definition classify_deref :: "string \<Rightarrow> classified" where
  "classify_deref line =
     (case re_search re_deref_assign line of
        None \<Rightarrow> \<lparr>c_reads = [], c_writes = [], c_operation = [], c_defs = []\<rparr>
      | Some m \<Rightarrow>
          (let ptr_name = group m 1;
               deref_name = ''*'' @ ptr_name;
               operation = ''Pointer dereference assignment: *'' @ ptr_name @ '' = value''
           in \<lparr>c_reads = ptr_name # extract_variables_from_expression (after_sub ''='' line),
               c_writes = [deref_name], c_operation = operation,
               c_defs = [(deref_name, operation)]\<rparr>))"

definition classify_decl_assign :: "string \<Rightarrow> classified" where
  "classify_decl_assign line =
     (case re_search re_decl_assign line of
        None \<Rightarrow> \<lparr>c_reads = [], c_writes = [], c_operation = [], c_defs = []\<rparr>
      | Some m \<Rightarrow>
          (let var_name = group m 2;
               operation = ''Declaration and assignment of '' @ var_name
           in \<lparr>c_reads = extract_variables_from_expression (after_sub ''='' line),
               c_writes = [var_name], c_operation = operation,
               c_defs = [(var_name, operation)]\<rparr>))"

definition classify_decl :: "string \<Rightarrow> classified" where
  "classify_decl line =
     (case re_search re_type_star line of
        None \<Rightarrow> \<lparr>c_reads = [], c_writes = [], c_operation = [], c_defs = []\<rparr>
      | Some m \<Rightarrow>
          (let is_pointer = (group m 2 = ''*'');
               remaining = drop (m_end m) line;
               var_names = findall1 re_name_sep remaining;
               res = declare_names (if is_pointer then '' pointer'' else []) var_names ([], [], [])
           in \<lparr>c_reads = [], c_writes = fst res, c_operation = fst (snd res),
               c_defs = snd (snd res)\<rparr>))"

definition classify_assign :: "string \<Rightarrow> classified" where
  "classify_assign line =
     (case re_search re_assign line of
        None \<Rightarrow> \<lparr>c_reads = [], c_writes = [], c_operation = [], c_defs = []\<rparr>
      | Some m \<Rightarrow>
          (let var_name = group m 1;
               operation = ''Assignment to '' @ var_name
           in \<lparr>c_reads = extract_variables_from_expression (after_sub ''='' line),
               c_writes = [var_name], c_operation = operation,
               c_defs = [(var_name, operation)]\<rparr>))"

definition classify_control :: "string \<Rightarrow> classified" where
  "classify_control line =
     (case re_search re_control line of
        None \<Rightarrow> \<lparr>c_reads = [], c_writes = [], c_operation = [], c_defs = []\<rparr>
      | Some m \<Rightarrow>
          \<lparr>c_reads =
             (case (str_find line ''('', str_find line '')'') of
                (Some paren_start, Some paren_end) \<Rightarrow>
                  extract_variables_from_expression (slice line (paren_start + 1) paren_end)
              | _ \<Rightarrow> []),
           c_writes = [],
           c_operation = ''Control flow: '' @ group m 1 @ '' statement'',
           c_defs = []\<rparr>)"

definition classify_call :: "string \<Rightarrow> classified" where
  \<comment> \<open>\<^verbatim>\<open>line[:paren_start]\<close> with \<^verbatim>\<open>paren_start == -1\<close> would drop the last character; the
      pattern of a call has matched, so the line holds an opening parenthesis\<close>
  "classify_call line =
     (case re_search re_call line of
        None \<Rightarrow> \<lparr>c_reads = [], c_writes = [], c_operation = [], c_defs = []\<rparr>
      | Some m \<Rightarrow>
          (let func_name = group m 1;
               paren_start = str_find line ''('';
               paren_end = rfind line CHR '')'';
               reads = (case (paren_start, paren_end) of
                          (Some ps, Some pe) \<Rightarrow> extract_variables_from_expression (slice line (ps + 1) pe)
                        | _ \<Rightarrow> []);
               before = (case paren_start of Some ps \<Rightarrow> take ps line | None \<Rightarrow> butlast line);
               assign_match =
                 (if func_name \<in> set [''malloc'', ''calloc'', ''realloc''] \<and> contains line ''=''
                  then re_search re_assign_target before else None)
           in (case assign_match of
                 None \<Rightarrow> \<lparr>c_reads = reads, c_writes = [],
                           c_operation = ''Function call: '' @ func_name @ ''()'', c_defs = []\<rparr>
               | Some am \<Rightarrow>
                   (let ptr_var = group am 1;
                        operation = ''Memory allocation: '' @ ptr_var @ '' = '' @ func_name @ ''(...)''
                    in \<lparr>c_reads = reads, c_writes = [ptr_var], c_operation = operation,
                        c_defs = [(ptr_var, operation)]\<rparr>))))"

definition classify_return :: "string \<Rightarrow> classified" where
  "classify_return line =
     \<lparr>c_reads = extract_variables_from_expression (after_sub ''return'' line),
      c_writes = [], c_operation = ''Return statement'', c_defs = []\<rparr>"

definition classify_line :: "string \<Rightarrow> classified" where
  "classify_line line =
     (if re_test re_deref_assign line \<and> \<not> re_test re_eqeq line \<and> \<not> re_test re_ptr_type line
      then classify_deref line
      else if re_test re_decl_assign line then classify_decl_assign line
      else if re_test re_decl line then classify_decl line
      else if re_test re_assign line \<and> \<not> re_test re_eqeq line \<and> \<not> re_test re_star line
      then classify_assign line
      else if re_test re_control line then classify_control line
      else if re_test re_call line then classify_call line
      else if contains line ''return'' then classify_return line
      else \<lparr>c_reads = [], c_writes = [], c_operation = [], c_defs = []\<rparr>)"

subsection \<open>The tables of one analysis run\<close>

record var_info =
  definitions :: "(nat \<times> string) list"
  uses :: "(nat \<times> string) list"

record line_record =
  reads :: "string list"
  writes :: "string list"
  operation :: string

record dataflow =
  variables :: "(string \<times> var_info) list"
  dependencies :: "(string \<times> string list) list"
  line_analysis :: "(nat \<times> line_record) list"
  reaching_definitions :: "(nat \<times> string list) list"

definition init_dataflow :: dataflow where
  "init_dataflow = \<lparr>variables = [], dependencies = [], line_analysis = [], reaching_definitions = []\<rparr>"

definition var_entry :: "(string \<times> var_info) list \<Rightarrow> string \<Rightarrow> var_info" where
  \<comment> \<open>the entry of a name, created empty when the name is new\<close>
  "var_entry vars var_name =
     (case map_of vars var_name of Some info \<Rightarrow> info | None \<Rightarrow> \<lparr>definitions = [], uses = []\<rparr>)"

definition add_variable_definition ::
  "string \<Rightarrow> nat \<Rightarrow> string \<Rightarrow> (string \<times> var_info) list \<Rightarrow> (string \<times> var_info) list" where
  "add_variable_definition var_name line_num details vars =
     (let info = var_entry vars var_name
      in dict_set vars var_name (info\<lparr>definitions := definitions info @ [(line_num, details)]\<rparr>))"

definition add_variable_use ::
  "string \<Rightarrow> nat \<Rightarrow> string \<Rightarrow> (string \<times> var_info) list \<Rightarrow> (string \<times> var_info) list" where
  "add_variable_use var_name line_num details vars =
     (let info = var_entry vars var_name
      in dict_set vars var_name (info\<lparr>uses := uses info @ [(line_num, details)]\<rparr>))"

definition skipped_line :: "string \<Rightarrow> bool" where
  \<comment> \<open>empty lines, comments and preprocessor lines\<close>
  "skipped_line line =
     (let line_stripped = strip line
      in line_stripped = [] \<or> startswith line_stripped ''//'' \<or> startswith line_stripped ''#'')"

definition analyze_line :: "nat \<Rightarrow> string \<Rightarrow> dataflow \<Rightarrow> dataflow" where
  \<comment> \<open>one iteration of the loop of \<^verbatim>\<open>analyze_variables\<close>\<close>
  "analyze_line i line st =
     (if skipped_line line then st
      else if re_test re_function_def line then st
      else (let c = classify_line line;
                vars1 = fold (\<lambda>(v, d). add_variable_definition v i d) (c_defs c) (variables st);
                vars2 = fold (\<lambda>v. add_variable_use v i (''Used in: '' @ c_operation c)) (c_reads c) vars1
            in st\<lparr>variables := vars2,
                  line_analysis :=
                    dict_set (line_analysis st) i
                      \<lparr>reads = py_set_list (c_reads c), writes = py_set_list (c_writes c),
                       operation = c_operation c\<rparr>\<rparr>))"

fun analyze_from :: "nat \<Rightarrow> string list \<Rightarrow> dataflow \<Rightarrow> dataflow" where
  \<comment> \<open>\<^verbatim>\<open>for i, line in enumerate(self.lines, i)\<close>\<close>
  "analyze_from i [] st = st"
| "analyze_from i (line # rest) st = analyze_from (Suc i) rest (analyze_line i line st)"

definition analyze_variables :: "string list \<Rightarrow> dataflow \<Rightarrow> dataflow" where
  "analyze_variables lines st = analyze_from 1 lines st"

subsection \<open>Dependencies and reaching definitions\<close>

fun add_deps :: "string \<Rightarrow> string list \<Rightarrow> string list \<Rightarrow> string list" where
  \<comment> \<open>\<^verbatim>\<open>for read_var in analysis['reads']\<close>, on the dependency list of \<^verbatim>\<open>written_var\<close>\<close>
  "add_deps written_var [] deps = deps"
| "add_deps written_var (read_var # rs) deps =
     add_deps written_var rs
       (if read_var \<noteq> written_var \<and> read_var \<notin> set deps then deps @ [read_var] else deps)"

definition dep_list :: "(string \<times> string list) list \<Rightarrow> string \<Rightarrow> string list" where
  "dep_list deps w = (case map_of deps w of Some ds \<Rightarrow> ds | None \<Rightarrow> [])"

fun dep_writes ::
  "string list \<Rightarrow> string list \<Rightarrow> (string \<times> string list) list \<Rightarrow> (string \<times> string list) list" where
  \<comment> \<open>\<^verbatim>\<open>for written_var in analysis['writes']\<close>\<close>
  "dep_writes rds [] deps = deps"
| "dep_writes rds (written_var # ws) deps =
     (let deps1 = (if map_of deps written_var = None then dict_set deps written_var [] else deps)
      in dep_writes rds ws
           (dict_set deps1 written_var (add_deps written_var rds (dep_list deps1 written_var))))"

definition build_dependencies :: "dataflow \<Rightarrow> dataflow" where
  "build_dependencies st =
     st\<lparr>dependencies :=
          fold (\<lambda>(line_num, analysis). dep_writes (reads analysis) (writes analysis))
               (line_analysis st) (dependencies st)\<rparr>"

definition latest_step :: "nat \<Rightarrow> nat \<times> string \<Rightarrow> nat option \<Rightarrow> nat option" where
  "latest_step line_num d latest_def =
     (if fst d < line_num
      then (case latest_def of None \<Rightarrow> Some (fst d)
            | Some l \<Rightarrow> if l < fst d then Some (fst d) else latest_def)
      else latest_def)"

definition latest_def_of :: "nat \<Rightarrow> (nat \<times> string) list \<Rightarrow> nat option" where
  \<comment> \<open>the loop over \<^verbatim>\<open>self.variables[read_var]['definitions']\<close>\<close>
  "latest_def_of line_num defs = fold (latest_step line_num) defs None"

definition reaching_entry :: "nat \<Rightarrow> string \<Rightarrow> string" where
  "reaching_entry latest_def read_var =
     ''Line '' @ str_nat latest_def @ '' (defines '' @ read_var @ '')''"

definition reaching_of :: "(string \<times> var_info) list \<Rightarrow> nat \<Rightarrow> string \<Rightarrow> string list" where
  \<comment> \<open>what one read variable adds to \<^verbatim>\<open>reaching\<close>; \<^verbatim>\<open>if latest_def:\<close> is false for
      \<^verbatim>\<open>None\<close> and for 0\<close>
  "reaching_of vars line_num read_var =
     (case map_of vars read_var of
        None \<Rightarrow> []
      | Some info \<Rightarrow>
          (case latest_def_of line_num (definitions info) of
             None \<Rightarrow> []
           | Some l \<Rightarrow> if l \<noteq> 0 then [reaching_entry l read_var] else []))"

definition reaching_line ::
  "(string \<times> var_info) list \<Rightarrow> (nat \<times> line_record) list \<Rightarrow> nat \<Rightarrow> string list" where
  "reaching_line vars la line_num =
     (case map_of la line_num of
        None \<Rightarrow> []
      | Some analysis \<Rightarrow> concat (map (reaching_of vars line_num) (reads analysis)))"

definition compute_reaching_definitions :: "dataflow \<Rightarrow> dataflow" where
  "compute_reaching_definitions st =
     st\<lparr>reaching_definitions :=
          fold (\<lambda>line_num rd. dict_set rd line_num (reaching_line (variables st) (line_analysis st) line_num))
               (map fst (line_analysis st)) (reaching_definitions st)\<rparr>"

definition analyze :: "string list \<Rightarrow> dataflow" where
  \<comment> \<open>\<^verbatim>\<open>DataflowAnalyzer(code).analyze()\<close>, on the lines of \<^verbatim>\<open>code\<close>\<close>
  "analyze lines = compute_reaching_definitions (build_dependencies (analyze_variables lines init_dataflow))"

subsection \<open>The operation sequence\<close>

datatype operation_types = WRITE | READ | KILL

record operation_element =
  operation_id :: nat
  variable_name :: string
  operation_type :: operation_types
  line_number :: nat
  details :: string
  "next" :: "nat option"

type_synonym opstate = "operation_element list \<times> nat \<times> (string \<rightharpoonup> nat)"

definition redefine_details :: "string \<Rightarrow> nat \<Rightarrow> string" where
  "redefine_details var prev =
     ''Variable '' @ [CHR 0x27] @ var @ [CHR 0x27] @
     '' redefined, killing previous definition from line '' @ str_nat prev"

definition freed_details :: "string \<Rightarrow> string" where
  "freed_details freed_var = ''Memory freed for variable '' @ [CHR 0x27] @ freed_var @ [CHR 0x27]"

definition mk_op :: "nat \<Rightarrow> string \<Rightarrow> operation_types \<Rightarrow> nat \<Rightarrow> string \<Rightarrow> operation_element" where
  "mk_op oid var kind line_num det =
     \<lparr>operation_id = oid, variable_name = var, operation_type = kind, line_number = line_num,
      details = det, next = Some (oid + 1)\<rparr>"

fun write_ops :: "nat \<Rightarrow> string \<Rightarrow> string list \<Rightarrow> opstate \<Rightarrow> opstate" where
  \<comment> \<open>\<^verbatim>\<open>for var in analysis['writes']\<close>\<close>
  "write_ops line_num opn [] st = st"
| "write_ops line_num opn (var # vs) (operations, oid, variable_definitions) =
     (case variable_definitions var of
        Some prev \<Rightarrow>
          write_ops line_num opn vs
            (operations @ [mk_op oid var KILL line_num (redefine_details var prev),
                           mk_op (oid + 1) var WRITE line_num opn],
             oid + 2, variable_definitions(var \<mapsto> line_num))
      | None \<Rightarrow>
          write_ops line_num opn vs
            (operations @ [mk_op oid var WRITE line_num opn],
             oid + 1, variable_definitions(var \<mapsto> line_num)))"

fun read_ops :: "nat \<Rightarrow> string \<Rightarrow> string list \<Rightarrow> opstate \<Rightarrow> opstate" where
  \<comment> \<open>\<^verbatim>\<open>for var in analysis['reads']\<close>\<close>
  "read_ops line_num opn [] st = st"
| "read_ops line_num opn (var # vs) (operations, oid, variable_definitions) =
     read_ops line_num opn vs
       (operations @ [mk_op oid var READ line_num opn], oid + 1, variable_definitions)"

definition freed_var_of :: "string list \<Rightarrow> nat \<Rightarrow> string option" where
  \<comment> \<open>the explicit deallocation of a line; the keys of the line analysis are positions
      of \<^verbatim>\<open>enumerate(self.lines, 1)\<close>, so \<^verbatim>\<open>line_num - 1\<close> is never negative\<close>
  "freed_var_of lines line_num =
     (if 1 \<le> line_num \<and> line_num \<le> length lines \<and> contains (lines ! (line_num - 1)) ''free(''
      then map_option (\<lambda>m. group m 1) (re_search re_free (lines ! (line_num - 1)))
      else None)"

definition free_ops :: "string list \<Rightarrow> nat \<Rightarrow> opstate \<Rightarrow> opstate" where
  "free_ops lines line_num st =
     (case st of (operations, oid, variable_definitions) \<Rightarrow>
        (case freed_var_of lines line_num of
           None \<Rightarrow> st
         | Some freed_var \<Rightarrow>
             (operations @ [mk_op oid freed_var KILL line_num (freed_details freed_var)],
              oid + 1, variable_definitions)))"

definition line_ops :: "string list \<Rightarrow> (nat \<times> line_record) list \<Rightarrow> nat \<Rightarrow> opstate \<Rightarrow> opstate" where
  \<comment> \<open>the body of \<^verbatim>\<open>for line_num in sorted(self.line_analysis.keys())\<close>\<close>
  "line_ops lines la line_num st =
     (case map_of la line_num of
        None \<Rightarrow> st
      | Some analysis \<Rightarrow>
          free_ops lines line_num
            (read_ops line_num (operation analysis) (reads analysis)
               (write_ops line_num (operation analysis) (writes analysis) st)))"

definition set_last_next :: "operation_element list \<Rightarrow> operation_element list" where
  \<comment> \<open>\<^verbatim>\<open>if operations: operations[-1]["next"] = None\<close>\<close>
  "set_last_next operations =
     (if operations = [] then [] else butlast operations @ [(last operations)\<lparr>next := None\<rparr>])"

definition build_operation_sequence :: "string list \<Rightarrow> (nat \<times> line_record) list \<Rightarrow> operation_element list" where
  "build_operation_sequence lines la =
     set_last_next (fst (fold (line_ops lines la) (sort (map fst la)) ([], 0, Map.empty)))"

definition operations_of_source :: "string list \<Rightarrow> operation_element list" where
  \<comment> \<open>the sequence built after \<^verbatim>\<open>analyze()\<close> on the same lines\<close>
  "operations_of_source lines = build_operation_sequence lines (line_analysis (analyze lines))"

section \<open>The TTA graph analyzer\<close>

subsection \<open>Patterns of \<^verbatim>\<open>TTAGraphAnalyzer\<close>\<close>

definition re_main :: regex where
  \<comment> \<open>\<^verbatim>\<open>\b(int|char|double|float|long|short|void)\s+main\s*\(\<close>\<close>
  "re_main = seqs [WordB, Group 1 type_kw, re_ws1, Lit ''main'', re_ws, Lit ''('']"

definition re_loop :: regex where
  \<comment> \<open>\<^verbatim>\<open>\b(for|while)\s*\(\<close>\<close>
  "re_loop = seqs [WordB, Group 1 (alts [''for'', ''while'']), re_ws, Lit ''('']"

definition re_if :: regex where
  \<comment> \<open>\<^verbatim>\<open>\bif\s*\(\<close>\<close>
  "re_if = seqs [WordB, Lit ''if'', re_ws, Lit ''('']"

definition re_else :: regex where
  \<comment> \<open>\<^verbatim>\<open>\belse\b\<close>\<close>
  "re_else = seqs [WordB, Lit ''else'', WordB]"

definition re_ctrl_word :: regex where
  \<comment> \<open>\<^verbatim>\<open>\b(if|for|while|else|return)\b\<close>\<close>
  "re_ctrl_word =
     seqs [WordB, Group 1 (alts [''if'', ''for'', ''while'', ''else'', ''return'']), WordB]"

subsection \<open>Blocks\<close>

datatype node_types = START | LOOP | XOR | ACTIVITY | END

record block =
  block_id :: nat
  node_type :: node_types
  start_line :: nat
  end_line :: nat
  block_lines :: "string list"
  code_preview :: string
  operation_sequence :: "operation_element list"

definition meaningful :: "string \<Rightarrow> bool" where
  \<comment> \<open>\<^verbatim>\<open>l.strip() and not l.strip().startswith('//')\<close>\<close>
  "meaningful l = (strip l \<noteq> [] \<and> \<not> startswith (strip l) ''//'')"

definition preview_of :: "string list \<Rightarrow> string" where
  \<comment> \<open>the code preview of \<^verbatim>\<open>_create_block\<close>\<close>
  "preview_of ls =
     (case map strip (filter meaningful ls) of
        [] \<Rightarrow> ''{ ... }''
      | preview # _ \<Rightarrow> if 50 < length preview then take 47 preview @ ''...'' else preview)"

definition create_block :: "nat \<Rightarrow> nat \<Rightarrow> nat \<Rightarrow> string list \<Rightarrow> node_types \<Rightarrow> block" where
  \<comment> \<open>\<^verbatim>\<open>_create_block\<close>: the block it appends to \<^verbatim>\<open>self.blocks\<close>\<close>
  "create_block bid first_line last_line ls block_type =
     \<lparr>block_id = bid, node_type = block_type, start_line = first_line, end_line = last_line,
      block_lines = ls, code_preview = preview_of ls, operation_sequence = []\<rparr>"

subsection \<open>Block carving\<close>

text \<open>
  The first pass of \<^verbatim>\<open>create_logical_blocks\<close> fills the local lists
  \<^verbatim>\<open>control_structures\<close> and \<^verbatim>\<open>brace_stack\<close>, which nothing reads afterwards, and it
  cannot raise; the blocks come from the second pass alone, a \<^verbatim>\<open>while\<close> loop over a line
  cursor \<^verbatim>\<open>i\<close>. \<open>carve_step\<close> is one iteration of that loop at a cursor inside the text:
  the block it creates, if any, and how many lines after line \<^verbatim>\<open>i\<close> the cursor passes
  (the new cursor is \<^verbatim>\<open>i + 1\<close> plus that number).
\<close>

fun return_lookahead :: "string list \<Rightarrow> nat option" where
  \<comment> \<open>the look-ahead after a \<^verbatim>\<open>return\<close> line, on the lines that follow it: the offset of
      the lone closing brace that the END block absorbs\<close>
  "return_lookahead [] = None"
| "return_lookahead (next_line # rest) =
     (let next_line_stripped = strip next_line in
      if next_line_stripped = ''}''
      then (if length (filter (\<lambda>l. contains l ''}'') rest) = 0 then Some 0 else None)
      else if next_line_stripped \<noteq> [] \<and> \<not> startswith next_line_stripped ''//'' then None
      else map_option Suc (return_lookahead rest))"

fun collect_else :: "int \<Rightarrow> string list \<Rightarrow> string list" where
  \<comment> \<open>the lines an \<^verbatim>\<open>else {\<close> collects while \<^verbatim>\<open>brace_count > 0\<close>\<close>
  "collect_else brace_count [] = []"
| "collect_else brace_count (current_line # rest) =
     (if 0 < brace_count
      then current_line #
           collect_else (brace_count + int (count_list current_line CHR ''{'')
                                     - int (count_list current_line CHR ''}'')) rest
      else [])"

fun collect_body :: "string list \<Rightarrow> string list \<times> nat" where
  \<comment> \<open>after an opening brace that follows a control line: the lines collected, and the
      number of lines passed before the stop\<close>
  "collect_body [] = ([], 0)"
| "collect_body (current_line # rest) =
     (let current_stripped = strip current_line in
      if re_test re_ctrl_word current_stripped \<or> contains current_stripped ''}'' then ([], 0)
      else (case collect_body rest of
              (ls, n) \<Rightarrow>
                (if current_stripped \<noteq> [] \<or> startswith current_stripped ''//''
                 then current_line # ls else ls, Suc n)))"

fun collect_run :: "string list \<Rightarrow> string list" where
  \<comment> \<open>the lines a regular statement collects after itself\<close>
  "collect_run [] = []"
| "collect_run (current_line # rest) =
     (let current_stripped = strip current_line in
      if current_stripped = [] \<or> startswith current_stripped ''#''
         \<or> re_test re_ctrl_word current_stripped \<or> current_stripped = ''}''
         \<or> (contains current_stripped ''}'' \<and> \<not> contains current_stripped ''{'')
      then []
      else current_line # collect_run rest)"

definition after_control :: "string list \<Rightarrow> nat \<Rightarrow> bool" where
  \<comment> \<open>\<^verbatim>\<open>'{' in line and i > 0\<close> and a keyword in the stripped previous line\<close>
  "after_control lines i =
     (contains (lines ! i) ''{'' \<and> 0 < i \<and>
      list_ex (\<lambda>keyword. contains (strip (lines ! (i - 1))) keyword)
              [''if'', ''for'', ''while'', ''else''])"

definition carve_return :: "string list \<Rightarrow> nat \<Rightarrow> nat \<Rightarrow> block option \<times> nat" where
  "carve_return lines i bid =
     (case return_lookahead (drop (i + 1) lines) of
        None \<Rightarrow> (Some (create_block bid (i + 1) (i + 1) [lines ! i] END), 0)
      | Some k \<Rightarrow>
          (Some (create_block bid (i + 1) (i + 1 + k + 1) [lines ! i, lines ! (i + 1 + k)] END),
           k + 1))"

definition carve_else :: "string list \<Rightarrow> nat \<Rightarrow> nat \<Rightarrow> block option \<times> nat" where
  "carve_else lines i bid =
     (if contains (lines ! i) ''{''
      then (let collected = collect_else 1 (drop (i + 1) lines);
                ls = lines ! i # collected
            in (if 2 < length ls
                then Some (create_block bid (i + 1) (i + 1 + length ls - 1) ls ACTIVITY)
                else None,
                length collected))
      else (if i + 1 < length lines
            then (Some (create_block bid (i + 1) (i + 1 + 2 - 1) [lines ! i, lines ! (i + 1)] ACTIVITY), 1)
            else (Some (create_block bid (i + 1) (i + 1 + 1 - 1) [lines ! i] ACTIVITY), 0)))"

definition carve_body :: "string list \<Rightarrow> nat \<Rightarrow> nat \<Rightarrow> block option \<times> nat" where
  "carve_body lines i bid =
     (case collect_body (drop (i + 1) lines) of
        (ls, n) \<Rightarrow>
          (if ls \<noteq> [] \<and> filter meaningful ls \<noteq> []
           then Some (create_block bid (i + 1) (i + 1 + length ls - 1) ls ACTIVITY)
           else None,
           n))"

definition carve_run :: "string list \<Rightarrow> nat \<Rightarrow> nat \<Rightarrow> block option \<times> nat" where
  "carve_run lines i bid =
     (let collected = collect_run (drop (i + 1) lines);
          ls = lines ! i # collected
      in (if filter meaningful ls \<noteq> []
          then Some (create_block bid (i + 1) (i + 1 + length ls - 1) ls ACTIVITY)
          else None,
          length collected))"

definition carve_step :: "string list \<Rightarrow> nat \<Rightarrow> nat \<Rightarrow> block option \<times> nat" where
  "carve_step lines i bid =
     (let line = lines ! i; line_stripped = strip line in
      if line_stripped = [] \<or> startswith line_stripped ''#'' then (None, 0)
      else if re_test re_main line then (Some (create_block bid (i + 1) (i + 1) [line] START), 0)
      else if re_test re_loop line then (Some (create_block bid (i + 1) (i + 1) [line] LOOP), 0)
      else if re_test re_if line then (Some (create_block bid (i + 1) (i + 1) [line] XOR), 0)
      else if contains line ''return'' then carve_return lines i bid
      else if re_test re_else line then carve_else lines i bid
      else if after_control lines i then carve_body lines i bid
      else if line_stripped \<noteq> [] \<and> \<not> startswith line_stripped ''//'' then carve_run lines i bid
      else (None, 0))"

function carve :: "string list \<Rightarrow> nat \<Rightarrow> nat \<Rightarrow> block list" where
  \<comment> \<open>the \<^verbatim>\<open>while i < len(self.lines)\<close> loop from cursor \<^verbatim>\<open>i\<close> with the next block id: the
      blocks it appends\<close>
  "carve lines i bid =
     (if i < length lines
      then (case carve_step lines i bid of
              (None, k) \<Rightarrow> carve lines (i + 1 + k) bid
            | (Some b, k) \<Rightarrow> b # carve lines (i + 1 + k) (bid + 1))
      else [])"
  by pat_completeness auto
termination
  by (relation "measure (\<lambda>(lines, i, bid). length lines - i)") auto

declare carve.simps [simp del]

definition create_logical_blocks :: "string list \<Rightarrow> block list" where
  "create_logical_blocks lines = carve lines 0 0"

function cursors :: "string list \<Rightarrow> nat \<Rightarrow> nat list" where
  \<comment> \<open>the cursor positions, inside the text, at which the loop runs an iteration\<close>
  "cursors lines i =
     (if i < length lines then i # cursors lines (i + 1 + snd (carve_step lines i 0)) else [])"
  by pat_completeness auto
termination
  by (relation "measure (\<lambda>(lines, i). length lines - i)") auto

declare cursors.simps [simp del]

subsection \<open>Arcs\<close>

datatype arc_types = solid | dashed | dotted

record arc =
  arc_from :: nat
  arc_to :: nat
  arc_type :: arc_types
  description :: string

definition py_range_down :: "int \<Rightarrow> int \<Rightarrow> int list" where
  \<comment> \<open>\<^verbatim>\<open>range(a, b, -1)\<close>\<close>
  "py_range_down a b = map (\<lambda>k. a - int k) [0 ..< nat (a - b)]"

definition is_branch_block :: "block list \<Rightarrow> nat \<Rightarrow> bool" where
  \<comment> \<open>\<^verbatim>\<open>_is_branch_block\<close>: an XOR block among \<^verbatim>\<open>range(block_idx - 1, max(0, block_idx - 3), -1)\<close>\<close>
  "is_branch_block blocks block_idx =
     list_ex (\<lambda>j. node_type (blocks ! nat j) = XOR)
             (py_range_down (int block_idx - 1) (max 0 (int block_idx - 3)))"

definition find_merge_point :: "block list \<Rightarrow> nat \<Rightarrow> nat option" where
  "find_merge_point blocks branch_idx =
     List.find (\<lambda>i. node_type (blocks ! i) \<in> {LOOP, XOR, END}
                  \<or> (node_type (blocks ! i) = ACTIVITY \<and> \<not> is_branch_block blocks i))
               [branch_idx + 1 ..< length blocks]"

definition find_xor_branches :: "block list \<Rightarrow> nat \<Rightarrow> nat list" where
  "find_xor_branches blocks xor_idx =
     (let branches = (if xor_idx + 1 < length blocks then [xor_idx + 1] else []);
          true_branch_end = xor_idx + 1
      in if true_branch_end < length blocks
            \<and> node_type (blocks ! true_branch_end) = ACTIVITY
            \<and> true_branch_end + 1 < length blocks
            \<and> node_type (blocks ! (true_branch_end + 1)) = ACTIVITY
            \<and> (list_ex (\<lambda>line. contains line ''else'') (block_lines (blocks ! (true_branch_end + 1)))
                \<or> true_branch_end + 1 = xor_idx + 2)
         then branches @ [true_branch_end + 1]
         else branches)"

definition is_loop_end :: "block list \<Rightarrow> nat \<Rightarrow> bool" where
  "is_loop_end blocks block_idx =
     (block_idx < length blocks
      \<and> list_ex (\<lambda>line. contains line ''}'') (block_lines (blocks ! block_idx)))"

fun loop_exit_scan :: "block list \<Rightarrow> nat \<Rightarrow> nat \<Rightarrow> nat list \<Rightarrow> nat option" where
  \<comment> \<open>the first loop of \<^verbatim>\<open>_find_loop_exit\<close> over the block indices left, with
      \<^verbatim>\<open>loop_depth\<close>\<close>
  "loop_exit_scan blocks loop_idx loop_depth [] = None"
| "loop_exit_scan blocks loop_idx loop_depth (i # rest) =
     (let depth1 = (if node_type (blocks ! i) = LOOP then loop_depth + 1 else loop_depth) in
      if depth1 = 0 \<and> node_type (blocks ! i) \<in> {XOR, LOOP, END} then Some i
      else if depth1 = 0 \<and> node_type (blocks ! i) = ACTIVITY \<and> loop_idx + 2 < i then Some i
      else loop_exit_scan blocks loop_idx
             (if 0 < depth1 \<and> is_loop_end blocks i then depth1 - 1 else depth1) rest)"

definition find_loop_exit :: "block list \<Rightarrow> nat \<Rightarrow> nat option" where
  "find_loop_exit blocks loop_idx =
     (case loop_exit_scan blocks loop_idx 0 [loop_idx + 1 ..< length blocks] of
        Some i \<Rightarrow> Some i
      | None \<Rightarrow> List.find (\<lambda>i. node_type (blocks ! i) = END) [loop_idx + 1 ..< length blocks])"

fun loop_body_scan :: "block list \<Rightarrow> nat option \<Rightarrow> nat option \<Rightarrow> nat list \<Rightarrow> nat option" where
  \<comment> \<open>the loop of \<^verbatim>\<open>_find_loop_body_end\<close> over the block indices left, with
      \<^verbatim>\<open>last_activity\<close>\<close>
  "loop_body_scan blocks loop_exit last_activity [] = last_activity"
| "loop_body_scan blocks loop_exit last_activity (i # rest) =
     (if (case loop_exit of None \<Rightarrow> False | Some e \<Rightarrow> e \<le> i) then last_activity
      else if node_type (blocks ! i) = ACTIVITY then loop_body_scan blocks loop_exit (Some i) rest
      else if node_type (blocks ! i) = XOR
      then (case find_xor_branches blocks i of
              [] \<Rightarrow> loop_body_scan blocks loop_exit last_activity rest
            | b # bs \<Rightarrow> loop_body_scan blocks loop_exit (Some (Max (set (b # bs)))) rest)
      else loop_body_scan blocks loop_exit last_activity rest)"

definition find_loop_body_end :: "block list \<Rightarrow> nat \<Rightarrow> nat option" where
  "find_loop_body_end blocks loop_idx =
     loop_body_scan blocks (find_loop_exit blocks loop_idx) None [loop_idx + 1 ..< length blocks]"

definition mk_arc :: "nat \<Rightarrow> nat \<Rightarrow> arc_types \<Rightarrow> string \<Rightarrow> arc" where
  "mk_arc a b t d = \<lparr>arc_from = a, arc_to = b, arc_type = t, description = d\<rparr>"

definition block_arcs :: "block list \<Rightarrow> nat \<Rightarrow> arc list" where
  \<comment> \<open>the arcs that one iteration of \<^verbatim>\<open>create_control_flow_arcs\<close> appends, for block \<^verbatim>\<open>i\<close>\<close>
  "block_arcs blocks i =
     (case node_type (blocks ! i) of
        START \<Rightarrow> (if i + 1 < length blocks then [mk_arc i (i + 1) solid ''Function entry''] else [])
      | ACTIVITY \<Rightarrow>
          (if is_branch_block blocks i
           then (case find_merge_point blocks i of
                   Some merge_point \<Rightarrow> [mk_arc i merge_point solid ''Branch to merge'']
                 | None \<Rightarrow> [])
           else (if i + 1 < length blocks \<and> node_type (blocks ! (i + 1)) \<noteq> END
                 then [mk_arc i (i + 1) solid ''Sequential''] else []))
      | LOOP \<Rightarrow>
          (if i + 1 < length blocks then [mk_arc i (i + 1) dashed ''Loop true''] else [])
          @ (case find_loop_exit blocks i of
               Some loop_exit \<Rightarrow> [mk_arc i loop_exit dashed ''Loop false''] | None \<Rightarrow> [])
          @ (case find_loop_body_end blocks i of
               Some loop_end \<Rightarrow> [mk_arc loop_end i dotted ''Loop back''] | None \<Rightarrow> [])
      | XOR \<Rightarrow>
          (case find_xor_branches blocks i of
             [] \<Rightarrow> []
           | [b0] \<Rightarrow> [mk_arc i b0 dashed ''If true'']
           | b0 # b1 # _ \<Rightarrow> [mk_arc i b0 dashed ''If true'', mk_arc i b1 dashed ''If false''])
      | END \<Rightarrow> [])"

definition create_control_flow_arcs :: "block list \<Rightarrow> arc list" where
  "create_control_flow_arcs blocks = concat (map (block_arcs blocks) [0 ..< length blocks])"

definition assign_operation_sequences :: "operation_element list \<Rightarrow> block list \<Rightarrow> block list" where
  "assign_operation_sequences operations blocks =
     map (\<lambda>b. b\<lparr>operation_sequence :=
                   filter (\<lambda>op. start_line b \<le> line_number op \<and> line_number op \<le> end_line b)
                          operations\<rparr>)
         blocks"

definition tta_blocks :: "string list \<Rightarrow> block list" where
  \<comment> \<open>\<^verbatim>\<open>self.blocks\<close> after \<^verbatim>\<open>TTAGraphAnalyzer(code, dataflow_analyzer).analyze()\<close>\<close>
  "tta_blocks lines = assign_operation_sequences (operations_of_source lines) (create_logical_blocks lines)"

definition tta_arcs :: "string list \<Rightarrow> arc list" where
  \<comment> \<open>\<^verbatim>\<open>self.arcs\<close> after the same call\<close>
  "tta_arcs lines = create_control_flow_arcs (create_logical_blocks lines)"

section \<open>Invariants used in the proofs\<close>

definition chained :: "operation_element list \<Rightarrow> bool" where
  "chained ops = (\<forall>i < length ops. operation_id (ops ! i) = i \<and> next (ops ! i) = Some (Suc i))"

definition wf_opstate :: "opstate \<Rightarrow> bool" where
  "wf_opstate st = (case st of (ops, oid, vd) \<Rightarrow> oid = length ops \<and> chained ops)"

definition deps_ok :: "(string \<times> string list) list \<Rightarrow> bool" where
  "deps_ok D = (\<forall>w. distinct (dep_list D w) \<and> w \<notin> set (dep_list D w))"

definition written_reads :: "(nat \<times> line_record) list \<Rightarrow> string \<Rightarrow> string set" where
  "written_reads la w =
     (\<Union>(ln, a) \<in> set (filter (\<lambda>(ln, a). w \<in> set (writes a)) la). set (reads a) - {w})"


lemma chained_Nil: "chained []"
  by (simp add: chained_def)

lemma chained_snoc:
  "chained ops \<Longrightarrow> chained (ops @ [mk_op (length ops) v k l d])"
  by (auto simp: chained_def mk_op_def nth_append less_Suc_eq)

lemma chained_snoc2:
  "chained ops \<Longrightarrow>
   chained (ops @ [mk_op (length ops) v k l d, mk_op (length ops + 1) v' k' l' d'])"
  using chained_snoc [OF chained_snoc [of ops v k l d], of v' k' l' d'] by simp

lemma wf_write_ops: "wf_opstate st \<Longrightarrow> wf_opstate (write_ops ln opn vs st)"
proof (induction vs arbitrary: st)
  case Nil
  then show ?case by simp
next
  case (Cons v vs)
  obtain ops oid vd where st: "st = (ops, oid, vd)" by (cases st) auto
  with Cons.prems have w: "oid = length ops" "chained ops" by (auto simp: wf_opstate_def)
  show ?case
  proof (cases "vd v")
    case None
    have "wf_opstate (ops @ [mk_op oid v WRITE ln opn], oid + 1, vd(v \<mapsto> ln))"
      using w chained_snoc by (simp add: wf_opstate_def)
    from Cons.IH [OF this] show ?thesis using None st by simp
  next
    case (Some prev)
    have "wf_opstate (ops @ [mk_op oid v KILL ln (redefine_details v prev), mk_op (oid + 1) v WRITE ln opn],
            oid + 2, vd(v \<mapsto> ln))"
      using w chained_snoc2 by (simp add: wf_opstate_def)
    from Cons.IH [OF this] show ?thesis using Some st by simp
  qed
qed

lemma wf_read_ops: "wf_opstate st \<Longrightarrow> wf_opstate (read_ops ln opn vs st)"
proof (induction vs arbitrary: st)
  case Nil
  then show ?case by simp
next
  case (Cons v vs)
  obtain ops oid vd where st: "st = (ops, oid, vd)" by (cases st) auto
  with Cons.prems have w: "oid = length ops" "chained ops" by (auto simp: wf_opstate_def)
  have "wf_opstate (ops @ [mk_op oid v READ ln opn], oid + 1, vd)"
    using w chained_snoc by (simp add: wf_opstate_def)
  from Cons.IH [OF this] show ?case using st by simp
qed

lemma wf_free_ops: "wf_opstate st \<Longrightarrow> wf_opstate (free_ops lines ln st)"
  by (cases st) (auto simp: free_ops_def wf_opstate_def chained_snoc split: option.splits)

lemma wf_line_ops: "wf_opstate st \<Longrightarrow> wf_opstate (line_ops lines la ln st)"
  by (simp add: line_ops_def wf_free_ops wf_read_ops wf_write_ops split: option.splits)

lemma wf_fold_line_ops: "wf_opstate st \<Longrightarrow> wf_opstate (fold (line_ops lines la) ks st)"
  by (induction ks arbitrary: st) (simp_all add: wf_line_ops)

lemma chained_all_ops:
  "chained (fst (fold (line_ops lines la) (sort (map fst la)) ([], 0, Map.empty)))"
proof -
  have "wf_opstate ([], 0, Map.empty)" by (simp add: wf_opstate_def chained_Nil)
  from wf_fold_line_ops [OF this, of lines la "sort (map fst la)"]
  show ?thesis by (auto simp: wf_opstate_def split: prod.splits)
qed


lemma set_last_next_snoc: "set_last_next (xs @ [x]) = xs @ [x\<lparr>next := None\<rparr>]"
  by (simp add: set_last_next_def)

lemma chained_terminal:
  assumes "chained ops" "ops \<noteq> []"
  shows "length (set_last_next ops) = length ops"
    and "\<And>i. i < length ops \<Longrightarrow> operation_id (set_last_next ops ! i) = i"
    and "\<And>i. Suc i < length ops \<Longrightarrow> next (set_last_next ops ! i) = Some (Suc i)"
    and "next (last (set_last_next ops)) = None"
    and "\<And>i. i < length ops \<Longrightarrow> next (set_last_next ops ! i) = None \<Longrightarrow> Suc i = length ops"
proof -
  from assms(2) obtain xs x where ops: "ops = xs @ [x]" by (cases ops rule: rev_cases) auto
  have s: "set_last_next ops = xs @ [x\<lparr>next := None\<rparr>]"
    unfolding ops by (rule set_last_next_snoc)
  show "length (set_last_next ops) = length ops" by (simp add: ops set_last_next_snoc)
  show "next (last (set_last_next ops)) = None" by (simp add: s)
  have old: "\<And>i. i < length xs \<Longrightarrow> operation_id (xs ! i) = i \<and> next (xs ! i) = Some (Suc i)"
  proof -
    fix i assume i: "i < length xs"
    then have "i < length ops" by (simp add: ops)
    with assms(1) have "operation_id (ops ! i) = i \<and> next (ops ! i) = Some (Suc i)"
      unfolding chained_def by blast
    then show "operation_id (xs ! i) = i \<and> next (xs ! i) = Some (Suc i)"
      using i by (simp add: ops nth_append)
  qed
  have lastid: "operation_id x = length xs"
  proof -
    have "length xs < length ops" by (simp add: ops)
    with assms(1) have "operation_id (ops ! length xs) = length xs"
      unfolding chained_def by blast
    then show ?thesis by (simp add: ops)
  qed
  show "\<And>i. i < length ops \<Longrightarrow> operation_id (set_last_next ops ! i) = i"
  proof -
    fix i assume "i < length ops"
    then have "i < length xs \<or> i = length xs" by (auto simp: ops)
    then show "operation_id (set_last_next ops ! i) = i"
      using old lastid by (auto simp: s nth_append)
  qed
  show "\<And>i. Suc i < length ops \<Longrightarrow> next (set_last_next ops ! i) = Some (Suc i)"
  proof -
    fix i assume "Suc i < length ops"
    then have "i < length xs" by (simp add: ops)
    then show "next (set_last_next ops ! i) = Some (Suc i)"
      using old by (simp add: s nth_append)
  qed
  show "\<And>i. i < length ops \<Longrightarrow> next (set_last_next ops ! i) = None \<Longrightarrow> Suc i = length ops"
  proof -
    fix i assume i: "i < length ops" and n: "next (set_last_next ops ! i) = None"
    show "Suc i = length ops"
    proof (cases "i < length xs")
      case True
      with old [OF True] n show ?thesis by (simp add: s nth_append)
    next
      case False
      with i show ?thesis by (simp add: ops)
    qed
  qed
qed

text \<open>
  Claim C3. Every non-empty operation sequence that \<^verbatim>\<open>build_operation_sequence\<close> returns,
  for any line-analysis table, has the operation ids \<open>0, 1, ..., N - 1\<close> in emission
  order; every operation but the last has \<^verbatim>\<open>next\<close> equal to its own id plus one; the
  last operation has \<^verbatim>\<open>next = None\<close>, the terminal sentinel, and is the only one.
\<close>

theorem operation_ids_dense_single_terminal:
  assumes "build_operation_sequence lines la \<noteq> []"
  shows "(\<forall>i < length (build_operation_sequence lines la).
            operation_id (build_operation_sequence lines la ! i) = i)
       \<and> (\<forall>i. Suc i < length (build_operation_sequence lines la) \<longrightarrow>
            next (build_operation_sequence lines la ! i)
              = Some (operation_id (build_operation_sequence lines la ! i) + 1))
       \<and> next (last (build_operation_sequence lines la)) = None
       \<and> (\<forall>i < length (build_operation_sequence lines la).
            next (build_operation_sequence lines la ! i) = None \<longrightarrow>
            Suc i = length (build_operation_sequence lines la))"
proof -
  define raw where "raw = fst (fold (line_ops lines la) (sort (map fst la)) ([], 0, Map.empty))"
  have b: "build_operation_sequence lines la = set_last_next raw"
    by (simp add: build_operation_sequence_def raw_def)
  have c: "chained raw" unfolding raw_def by (rule chained_all_ops)
  have ne: "raw \<noteq> []" using assms unfolding b by (auto simp: set_last_next_def)
  note p = chained_terminal [OF c ne]
  have 1: "\<forall>i < length (set_last_next raw). operation_id (set_last_next raw ! i) = i"
    using p(2) by (simp add: p(1))
  have 2: "\<forall>i. Suc i < length (set_last_next raw) \<longrightarrow>
             next (set_last_next raw ! i) = Some (operation_id (set_last_next raw ! i) + 1)"
  proof (intro allI impI)
    fix i assume i: "Suc i < length (set_last_next raw)"
    then have "Suc i < length raw" by (simp add: p(1))
    from p(3) [OF this] p(2) [of i] this
    show "next (set_last_next raw ! i) = Some (operation_id (set_last_next raw ! i) + 1)" by simp
  qed
  have 4: "\<forall>i < length (set_last_next raw). next (set_last_next raw ! i) = None \<longrightarrow>
             Suc i = length (set_last_next raw)"
    using p(5) by (simp add: p(1))
  show ?thesis unfolding b using 1 2 p(4) 4 by blast
qed

theorem operation_ids_dense_single_terminal_witness:
  "build_operation_sequence [''int x = 1;'', ''x = 2;'']
     (line_analysis (analyze [''int x = 1;'', ''x = 2;''])) \<noteq> []
   \<and> next (last (build_operation_sequence [''int x = 1;'', ''x = 2;'']
         (line_analysis (analyze [''int x = 1;'', ''x = 2;''])))) = None
   \<and> length (build_operation_sequence [''int x = 1;'', ''x = 2;'']
         (line_analysis (analyze [''int x = 1;'', ''x = 2;'']))) = 3"
proof -
  have h: "build_operation_sequence [''int x = 1;'', ''x = 2;'']
     (line_analysis (analyze [''int x = 1;'', ''x = 2;''])) \<noteq> []"
    by code_simp
  have l: "length (build_operation_sequence [''int x = 1;'', ''x = 2;'']
     (line_analysis (analyze [''int x = 1;'', ''x = 2;'']))) = 3"
    by code_simp
  from operation_ids_dense_single_terminal [OF h] h l show ?thesis by blast
qed

lemma map_of_dict_set: "map_of (dict_set d k v) = (map_of d)(k \<mapsto> v)"
  by (induction d k v rule: dict_set.induct) auto

lemma dep_list_dict_set:
  "dep_list (dict_set d k v) w = (if w = k then v else dep_list d w)"
  by (simp add: dep_list_def map_of_dict_set)

lemma set_add_deps: "set (add_deps w rs ds) = set ds \<union> (set rs - {w})"
  by (induction rs arbitrary: ds) auto

lemma distinct_add_deps: "distinct ds \<Longrightarrow> distinct (add_deps w rs ds)"
  by (induction rs arbitrary: ds) auto

lemma dep_writes_step:
  "dep_list (dict_set (if map_of D w = None then dict_set D w [] else D) w
       (add_deps w rds (dep_list (if map_of D w = None then dict_set D w [] else D) w))) v
   = (if v = w then add_deps w rds (dep_list D w) else dep_list D v)"
  by (auto simp: dep_list_def map_of_dict_set)

lemma dep_writes_set:
  "set (dep_list (dep_writes rds ws D) v)
     = set (dep_list D v) \<union> (if v \<in> set ws then set rds - {v} else {})"
proof (induction ws arbitrary: D)
  case Nil
  then show ?case by simp
next
  case (Cons w ws)
  show ?case
    by (simp only: dep_writes.simps Let_def Cons.IH dep_writes_step)
       (auto simp: set_add_deps)
qed

lemma dep_writes_ok: "deps_ok D \<Longrightarrow> deps_ok (dep_writes rds ws D)"
proof (induction ws arbitrary: D)
  case Nil
  then show ?case by simp
next
  case (Cons w ws)
  have "deps_ok (dict_set (if map_of D w = None then dict_set D w [] else D) w
       (add_deps w rds (dep_list (if map_of D w = None then dict_set D w [] else D) w)))"
    unfolding deps_ok_def dep_writes_step
    using Cons.prems by (auto simp: deps_ok_def distinct_add_deps set_add_deps)
  from Cons.IH [OF this] show ?case by (simp add: Let_def)
qed

lemma dep_writes_dom: "dom (map_of (dep_writes rds ws D)) = dom (map_of D) \<union> set ws"
proof (induction ws arbitrary: D)
  case Nil
  then show ?case by simp
next
  case (Cons w ws)
  have "dom (map_of (dict_set (if map_of D w = None then dict_set D w [] else D) w
       (add_deps w rds (dep_list (if map_of D w = None then dict_set D w [] else D) w))))
     = insert w (dom (map_of D))"
    by (simp add: map_of_dict_set)
  then show ?case by (simp add: Let_def Cons.IH del: dict_set.simps)
qed

lemma written_reads_Nil: "written_reads [] w = {}"
  by (simp add: written_reads_def)

lemma written_reads_Cons:
  "written_reads ((ln, a) # la) w
     = (if w \<in> set (writes a) then set (reads a) - {w} else {}) \<union> written_reads la w"
  by (simp add: written_reads_def)

lemma fold_deps_set:
  "set (dep_list (fold (\<lambda>(line_num, analysis). dep_writes (reads analysis) (writes analysis)) la D) w)
     = set (dep_list D w) \<union> written_reads la w"
proof (induction la arbitrary: D)
  case Nil
  then show ?case by (simp add: written_reads_Nil)
next
  case (Cons p la)
  obtain ln a where p: "p = (ln, a)" by (cases p)
  show ?case unfolding p by (simp add: Cons.IH dep_writes_set written_reads_Cons Un_assoc)
qed

lemma fold_deps_ok:
  "deps_ok D \<Longrightarrow>
   deps_ok (fold (\<lambda>(line_num, analysis). dep_writes (reads analysis) (writes analysis)) la D)"
proof (induction la arbitrary: D)
  case Nil
  then show ?case by simp
next
  case (Cons p la)
  obtain ln a where p: "p = (ln, a)" by (cases p)
  show ?case unfolding p using Cons.IH [OF dep_writes_ok [OF Cons.prems]] by simp
qed

lemma fold_deps_dom:
  "dom (map_of (fold (\<lambda>(line_num, analysis). dep_writes (reads analysis) (writes analysis)) la D))
     = dom (map_of D) \<union> {w. \<exists>ln a. (ln, a) \<in> set la \<and> w \<in> set (writes a)}"
proof (induction la arbitrary: D)
  case Nil
  then show ?case by simp
next
  case (Cons p la)
  obtain ln a where p: "p = (ln, a)" by (cases p)
  have "dom (map_of (fold (\<lambda>(line_num, analysis). dep_writes (reads analysis) (writes analysis)) (p # la) D))
      = (dom (map_of D) \<union> set (writes a))
        \<union> {w. \<exists>ln a. (ln, a) \<in> set la \<and> w \<in> set (writes a)}"
    unfolding p by (simp add: Cons.IH dep_writes_dom)
  also have "\<dots> = dom (map_of D) \<union> {w. \<exists>ln' a'. (ln', a') \<in> set (p # la) \<and> w \<in> set (writes a')}"
    unfolding p by auto
  finally show ?case .
qed

lemma dependencies_analyze:
  "dependencies (analyze lines)
     = fold (\<lambda>(line_num, analysis). dep_writes (reads analysis) (writes analysis))
         (line_analysis (analyze lines)) []"
proof -
  have 1: "dependencies (analyze_from i ls st) = dependencies st" for i ls st
    by (induction ls arbitrary: i st) (auto simp: analyze_line_def Let_def)
  show ?thesis
    by (simp add: analyze_def compute_reaching_definitions_def build_dependencies_def
        analyze_variables_def 1 init_dataflow_def)
qed

text \<open>
  Claim C7. After an analysis run the dependency entry of a variable \<open>w\<close> (the empty
  list when \<open>w\<close> has no entry) never contains \<open>w\<close>, has no duplicates, and holds exactly
  the variables read on the analysed lines that write \<open>w\<close>, \<open>w\<close> itself left out; \<open>w\<close> has
  an entry exactly when some analysed line writes it.
\<close>

theorem dependency_entry_is_union_without_self:
  "w \<notin> set (dep_list (dependencies (analyze lines)) w)
   \<and> distinct (dep_list (dependencies (analyze lines)) w)
   \<and> set (dep_list (dependencies (analyze lines)) w)
       = (\<Union>(ln, a) \<in> set (filter (\<lambda>(ln, a). w \<in> set (writes a)) (line_analysis (analyze lines))).
            set (reads a) - {w})
   \<and> (map_of (dependencies (analyze lines)) w \<noteq> None)
       = (\<exists>ln a. (ln, a) \<in> set (line_analysis (analyze lines)) \<and> w \<in> set (writes a))"
proof -
  have ok: "deps_ok []" by (simp add: deps_ok_def dep_list_def)
  have 1: "w \<notin> set (dep_list (dependencies (analyze lines)) w)"
    and 2: "distinct (dep_list (dependencies (analyze lines)) w)"
    unfolding dependencies_analyze
    using fold_deps_ok [OF ok, of "line_analysis (analyze lines)"]
    by (simp_all add: deps_ok_def)
  have 3: "set (dep_list (dependencies (analyze lines)) w)
       = written_reads (line_analysis (analyze lines)) w"
    unfolding dependencies_analyze fold_deps_set by (simp add: dep_list_def)
  have 4: "(map_of (dependencies (analyze lines)) w \<noteq> None)
       = (\<exists>ln a. (ln, a) \<in> set (line_analysis (analyze lines)) \<and> w \<in> set (writes a))"
  proof -
    have "(map_of (dependencies (analyze lines)) w \<noteq> None)
        = (w \<in> dom (map_of (dependencies (analyze lines))))" by auto
    also have "\<dots> = (\<exists>ln a. (ln, a) \<in> set (line_analysis (analyze lines)) \<and> w \<in> set (writes a))"
      unfolding dependencies_analyze fold_deps_dom by simp
    finally show ?thesis .
  qed
  show ?thesis using 1 2 3 4 unfolding written_reads_def by blast
qed

theorem dependency_entry_is_union_without_self_witness:
  "''sum'' \<notin> set (dep_list (dependencies (analyze [''int a = 10;'', ''int b = 5;'', ''int sum = a + b;''])) ''sum'')
   \<and> distinct (dep_list (dependencies (analyze [''int a = 10;'', ''int b = 5;'', ''int sum = a + b;''])) ''sum'')"
  using dependency_entry_is_union_without_self
          [of "''sum''" "[''int a = 10;'', ''int b = 5;'', ''int sum = a + b;'']"]
  by blast

end
